theory Spec2Isabelle
  imports Complex_Main "HOL-Library.AList"
begin

section \<open>Values, nodes and documents\<close>

text \<open>
  A JavaScript \<open>number\<close> is only ever carried around by the code below (a width handed
  to \<open>mm\<close>, a gap, a margin); no arithmetic is done on it. Page numbers and document
  positions are integers.
\<close>

type_synonym number = rat

record margin_config =
  margin_top :: number
  margin_right :: number
  margin_bottom :: number
  margin_left :: number

text \<open>
  The value of a node attribute. \<open>attrs[key]\<close> of the source is a lookup returning
  \<open>None\<close> for \<open>undefined\<close>; \<open>ANull\<close> is JavaScript's \<open>null\<close>.
\<close>

datatype attr_value = ANull | AStr string | ANum number | AMargins margin_config

datatype pm_node =
  PMNode (type_name: string) (attrs: "(string \<times> attr_value) list") (content: "pm_node list")

text \<open>What a call throws; a function that may throw returns a sum, \<open>Inl\<close> being the throw.\<close>

datatype js_error = RangeError | SyntaxError

text \<open>
  The document as the host editor addresses it: its nodes in document order, each under
  the position at which it starts, and the size of its content. \<open>nodeAt\<close> is the host's
  \<open>doc.nodeAt(pos)\<close>: it throws a \<open>RangeError\<close> for a position below \<open>0\<close> or beyond the
  size of the content, and otherwise returns the node that starts at the position, or
  \<open>null\<close> when none does.
\<close>

record document =
  doc_nodes :: "(int \<times> pm_node) list"
  content_size :: int

definition nodeAt :: "document \<Rightarrow> int \<Rightarrow> js_error + pm_node option" where
  "nodeAt d pos =
     (if pos < 0 \<or> content_size d < pos then Inl RangeError
      else Inr (map_of (doc_nodes d) pos))"

record editor_state =
  doc :: document

datatype step = AttrStep int string attr_value

record transaction =
  tr_doc :: document
  tr_steps :: "step list"

text \<open>What \<open>console.warn\<close> and \<open>console.error\<close> are called with.\<close>

datatype diagnostic =
    Warn_PageNumOutOfRange int
  | Warn_InvalidPaperSize string
  | Warn_InvalidPaperColour string
  | Error_NoNodeAtPos int
  | Error_NotPageNode int

text \<open>\<open>a ?? b\<close>: the right operand replaces \<open>undefined\<close> and \<open>null\<close> only.\<close>

definition nullish_or :: "attr_value option \<Rightarrow> attr_value \<Rightarrow> attr_value" where
  "nullish_or v d = (case v of None \<Rightarrow> d | Some ANull \<Rightarrow> d | Some x \<Rightarrow> x)"

section \<open>Constants of the repository that the sources import\<close>

text \<open>
  Modelled from the spec: \<open>constants/page\<close> is not among the sources. The attribute
  names are the ones the spec's data model lists for a page node, and the node type is
  named after the class \<open>renderHTML\<close> gives the element.
\<close>

definition PAGE_NODE_NAME :: string where
  "PAGE_NODE_NAME = ''page''"

definition PAGE_NODE_PAPER_SIZE_ATTR :: string where
  "PAGE_NODE_PAPER_SIZE_ATTR = ''paperSize''"

definition PAGE_NODE_PAPER_COLOUR_ATTR :: string where
  "PAGE_NODE_PAPER_COLOUR_ATTR = ''paperColour''"

definition PAGE_NODE_PAPER_ORIENTATION_ATTR :: string where
  "PAGE_NODE_PAPER_ORIENTATION_ATTR = ''paperOrientation''"

definition PAGE_NODE_PAGE_MARGINS_ATTR :: string where
  "PAGE_NODE_PAGE_MARGINS_ATTR = ''pageMargins''"

definition PAGE_NODE_PAGE_GAP_ATTR :: string where
  "PAGE_NODE_PAGE_GAP_ATTR = ''pageGap''"

text \<open>
  The table and the defaults of \<open>constants/paper\<close>, and the default gap of
  \<open>constants/page\<close>, are not among the sources either; every function that reads them
  takes them as the parameter \<open>K\<close>.
\<close>

record paper_dimensions =
  width :: number
  height :: number

record paper_constants =
  paperDimensions :: "(string \<times> paper_dimensions) list"
  DEFAULT_PAPER_SIZE :: string
  DEFAULT_PAPER_COLOUR :: string
  DEFAULT_PAPER_ORIENTATION :: string
  DEFAULT_MARGIN_CONFIG :: margin_config
  DEFAULT_PAGE_GAP :: number

section \<open>Paper geometry (utils/paper.ts)\<close>

text \<open>
  \<open>key in obj\<close> is true for the object's own keys and for every property the object
  inherits; the table is a plain object, so it inherits the members of
  \<open>Object.prototype\<close>. \<open>obj[key]\<close> reads along the same chain.
\<close>

definition Object_prototype_keys :: "string list" where
  "Object_prototype_keys =
     [''constructor'', ''hasOwnProperty'', ''isPrototypeOf'', ''propertyIsEnumerable'',
      ''toLocaleString'', ''toString'', ''valueOf'', ''__proto__'',
      ''__defineGetter__'', ''__defineSetter__'', ''__lookupGetter__'', ''__lookupSetter__'']"

datatype 'a js_property = Own 'a | Inherited string | Undefined

definition js_in :: "string \<Rightarrow> (string \<times> 'a) list \<Rightarrow> bool" where
  "js_in key obj = (key \<in> set (map fst obj) \<or> key \<in> set Object_prototype_keys)"

definition js_get :: "(string \<times> 'a) list \<Rightarrow> string \<Rightarrow> 'a js_property" where
  "js_get obj key =
     (case map_of obj key of
        Some v \<Rightarrow> Own v
      | None \<Rightarrow> if key \<in> set Object_prototype_keys then Inherited key else Undefined)"

definition isValidPaperSize :: "paper_constants \<Rightarrow> string \<Rightarrow> bool" where
  "isValidPaperSize K paperSize = js_in paperSize (paperDimensions K)"

definition getPaperDimensions :: "paper_constants \<Rightarrow> string \<Rightarrow> paper_dimensions js_property" where
  "getPaperDimensions K paperSize =
     (let paperSize' = (if \<not> isValidPaperSize K paperSize then DEFAULT_PAPER_SIZE K
                        else paperSize)
      in js_get (paperDimensions K) paperSize')"

definition getPageNodePaperSize :: "pm_node \<Rightarrow> attr_value option" where
  "getPageNodePaperSize pageNode = map_of (attrs pageNode) PAGE_NODE_PAPER_SIZE_ATTR"

definition getPageNodePaperColour :: "pm_node \<Rightarrow> attr_value option" where
  "getPageNodePaperColour pageNode = map_of (attrs pageNode) PAGE_NODE_PAPER_COLOUR_ATTR"

section \<open>Page attribute resolver (utils/paper.ts)\<close>

text \<open>
  The four traversal helpers come from \<open>utils/page\<close> and \<open>utils/pagination\<close>, which are
  not among the sources: the resolver takes them as the record \<open>h\<close>. A result is the
  returned value together with the diagnostics emitted on the way.
\<close>

record page_helpers =
  doesDocHavePageNodes :: "editor_state \<Rightarrow> bool"
  isPageNumInRange :: "document \<Rightarrow> int \<Rightarrow> bool"
  getLastPageNum :: "document \<Rightarrow> int"
  getPageNodeByPageNum :: "document \<Rightarrow> int \<Rightarrow> pm_node option"

definition handleOutOfRangePageNum ::
  "page_helpers \<Rightarrow> editor_state \<Rightarrow> int
     \<Rightarrow> (editor_state \<Rightarrow> int \<Rightarrow> (attr_value \<times> diagnostic list) option)
     \<Rightarrow> (attr_value \<times> diagnostic list) option" where
  "handleOutOfRangePageNum h state pageNum fallbackFn =
     (let lastPageNum = getLastPageNum h (doc state)
      in Option.bind (fallbackFn state lastPageNum)
           (\<lambda>(v, ds). Some (v, Warn_PageNumOutOfRange pageNum # ds)))"

lemma handleOutOfRangePageNum_mono [partial_function_mono]:
  assumes "\<And>s p. mono_option (\<lambda>f. F f s p)"
  shows "mono_option (\<lambda>f. handleOutOfRangePageNum h state pageNum (F f))"
  unfolding handleOutOfRangePageNum_def Let_def
  by (intro bind_mono assms option.const_mono)

text \<open>
  Nothing in the source bounds the recursion through \<open>handleOutOfRangePageNum\<close>: whether
  the retry returns depends on the helpers. \<open>None\<close> is a call that does not return.
\<close>

partial_function (option) getPageAttribute ::
  "page_helpers \<Rightarrow> editor_state \<Rightarrow> int \<Rightarrow> (unit \<Rightarrow> attr_value)
     \<Rightarrow> (pm_node \<Rightarrow> attr_value option) \<Rightarrow> (attr_value \<times> diagnostic list) option" where
  "getPageAttribute h state pageNum getDefault getNodeAttribute =
     (if \<not> doesDocHavePageNodes h state then Some (getDefault (), [])
      else if \<not> isPageNumInRange h (doc state) pageNum then
        handleOutOfRangePageNum h state pageNum
          (\<lambda>s p. getPageAttribute h s p getDefault getNodeAttribute)
      else (case getPageNodeByPageNum h (doc state) pageNum of
              None \<Rightarrow> Some (getDefault (), [])
            | Some pageNode \<Rightarrow>
                Some (nullish_or (getNodeAttribute pageNode) (getDefault ()), [])))"

record editor_commands =
  getDefaultPaperSize :: "unit \<Rightarrow> attr_value"
  getDefaultPaperColour :: "unit \<Rightarrow> attr_value"

record editor =
  state :: editor_state
  commands :: editor_commands

definition getPageNumPaperSize ::
  "page_helpers \<Rightarrow> editor \<Rightarrow> int \<Rightarrow> (attr_value \<times> diagnostic list) option" where
  "getPageNumPaperSize h ed pageNum =
     getPageAttribute h (state ed) pageNum
       (\<lambda>_. getDefaultPaperSize (commands ed) ()) getPageNodePaperSize"

definition getPageNumPaperSizeFromState ::
  "paper_constants \<Rightarrow> page_helpers \<Rightarrow> editor_state \<Rightarrow> int
     \<Rightarrow> (attr_value \<times> diagnostic list) option" where
  "getPageNumPaperSizeFromState K h st pageNum =
     getPageAttribute h st pageNum (\<lambda>_. AStr (DEFAULT_PAPER_SIZE K)) getPageNodePaperSize"

definition getPageNumPaperColour ::
  "page_helpers \<Rightarrow> editor \<Rightarrow> int \<Rightarrow> (attr_value \<times> diagnostic list) option" where
  "getPageNumPaperColour h ed pageNum =
     getPageAttribute h (state ed) pageNum
       (\<lambda>_. getDefaultPaperColour (commands ed) ()) getPageNodePaperColour"

definition getPageNumPaperColourFromState ::
  "paper_constants \<Rightarrow> page_helpers \<Rightarrow> editor_state \<Rightarrow> int
     \<Rightarrow> (attr_value \<times> diagnostic list) option" where
  "getPageNumPaperColourFromState K h st pageNum =
     getPageAttribute h st pageNum (\<lambda>_. AStr (DEFAULT_PAPER_COLOUR K)) getPageNodePaperColour"

subsection \<open>The traversal helpers\<close>

text \<open>
  Modelled from the spec: \<open>isPageNode\<close> of \<open>utils/page\<close> is not among the sources. A page
  node is a node of the page type.
\<close>

definition isPageNode :: "pm_node \<Rightarrow> bool" where
  "isPageNode node = (type_name node = PAGE_NODE_NAME)"

text \<open>
  Modelled from the spec: \<open>doesDocHavePageNodes\<close>, \<open>isPageNumInRange\<close>, \<open>getLastPageNum\<close>
  and \<open>getPageNodeByPageNum\<close> are not among the sources. Pages are numbered \<open>0..N-1\<close> in
  document order, the last page number is \<open>N-1\<close>, a page number is in range when it
  lies in \<open>[0, lastPageNum]\<close>, and the lookup returns the page node with that index.
\<close>

definition pages :: "document \<Rightarrow> pm_node list" where
  "pages d = filter isPageNode (map snd (doc_nodes d))"

definition spec_doesDocHavePageNodes :: "editor_state \<Rightarrow> bool" where
  "spec_doesDocHavePageNodes st = (pages (doc st) \<noteq> [])"

definition spec_getLastPageNum :: "document \<Rightarrow> int" where
  "spec_getLastPageNum d = int (length (pages d)) - 1"

definition spec_isPageNumInRange :: "document \<Rightarrow> int \<Rightarrow> bool" where
  "spec_isPageNumInRange d pageNum = (0 \<le> pageNum \<and> pageNum \<le> spec_getLastPageNum d)"

definition spec_getPageNodeByPageNum :: "document \<Rightarrow> int \<Rightarrow> pm_node option" where
  "spec_getPageNodeByPageNum d pageNum =
     (if spec_isPageNumInRange d pageNum then Some (pages d ! nat pageNum) else None)"

definition page_utils :: page_helpers where
  "page_utils =
     \<lparr> doesDocHavePageNodes = spec_doesDocHavePageNodes,
       isPageNumInRange = spec_isPageNumInRange,
       getLastPageNum = spec_getLastPageNum,
       getPageNodeByPageNum = spec_getPageNodeByPageNum \<rparr>"

text \<open>
  The spec's helpers with the range check, the last page number and the node lookup
  replaced by arbitrary functions.
\<close>

definition helpers_with ::
  "(document \<Rightarrow> int \<Rightarrow> bool) \<Rightarrow> (document \<Rightarrow> int) \<Rightarrow> (document \<Rightarrow> int \<Rightarrow> pm_node option) \<Rightarrow> page_helpers" where
  "helpers_with r l g =
     \<lparr> doesDocHavePageNodes = spec_doesDocHavePageNodes,
       isPageNumInRange = r, getLastPageNum = l, getPageNodeByPageNum = g \<rparr>"

text \<open>
  \<open>resolve pageNum\<close> returns what \<open>resolve lastPageNum\<close> returns, the latter without
  a diagnostic and the former with exactly one, the out-of-range warning.
\<close>

definition retried_once ::
  "(int \<Rightarrow> (attr_value \<times> diagnostic list) option) \<Rightarrow> int \<Rightarrow> int \<Rightarrow> bool" where
  "retried_once resolve lastPageNum pageNum =
     (case resolve lastPageNum of
        Some (v, []) \<Rightarrow> resolve pageNum = Some (v, [Warn_PageNumOutOfRange pageNum])
      | _ \<Rightarrow> False)"

section \<open>Page attribute mutator (utils/paper.ts)\<close>

text \<open>
  \<open>dispatch\<close> is either absent or a function of the host. A call of a setter yields the
  value it returns, the transaction as the call leaves it, the transactions handed to
  \<open>dispatch\<close>, and the diagnostics.
\<close>

datatype dispatch = NoDispatch | Dispatch

record set_result =
  returned :: bool
  tr_after :: transaction
  dispatched :: "transaction list"
  logged :: "diagnostic list"

definition rejected :: "transaction \<Rightarrow> diagnostic list \<Rightarrow> set_result" where
  "rejected tr ds = \<lparr> returned = False, tr_after = tr, dispatched = [], logged = ds \<rparr>"

text \<open>
  Modelled from the spec: \<open>setPageNodeAttribute\<close> of \<open>utils/page\<close> is not among the
  sources. It sets the attribute on the node at the position within the transaction.
\<close>

definition setNodeAttribute :: "document \<Rightarrow> int \<Rightarrow> string \<Rightarrow> attr_value \<Rightarrow> document" where
  "setNodeAttribute d pos key v =
     d \<lparr> doc_nodes :=
           map (\<lambda>(p, n). if p = pos
                          then (p, PMNode (type_name n) (AList.update key v (attrs n))
                                     (content n))
                          else (p, n)) (doc_nodes d) \<rparr>"

definition setPageNodeAttribute ::
  "transaction \<Rightarrow> int \<Rightarrow> pm_node \<Rightarrow> string \<Rightarrow> attr_value \<Rightarrow> transaction" where
  "setPageNodeAttribute tr pagePos pageNode key v =
     tr \<lparr> tr_doc := setNodeAttribute (tr_doc tr) pagePos key v,
          tr_steps := tr_steps tr @ [AttrStep pagePos key v] \<rparr>"

definition setPageNodePosPaperSize ::
  "paper_constants \<Rightarrow> transaction \<Rightarrow> dispatch \<Rightarrow> int \<Rightarrow> pm_node \<Rightarrow> string \<Rightarrow> set_result" where
  "setPageNodePosPaperSize K tr dispatch pagePos pageNode paperSize =
     (if dispatch = NoDispatch then rejected tr []
      else if \<not> isValidPaperSize K paperSize then rejected tr [Warn_InvalidPaperSize paperSize]
      else if \<not> isPageNode pageNode then rejected tr [Error_NotPageNode pagePos]
      else if getPageNodePaperSize pageNode = Some (AStr paperSize) then rejected tr []
      else (let tr' = setPageNodeAttribute tr pagePos pageNode PAGE_NODE_PAPER_SIZE_ATTR
                        (AStr paperSize)
            in \<lparr> returned = True, tr_after = tr', dispatched = [tr'], logged = [] \<rparr>))"

text \<open>
  \<open>setPagePaperSize\<close> calls \<open>tr.doc.nodeAt\<close> first and without a handler: what the
  lookup throws leaves the setter.
\<close>

definition setPagePaperSize ::
  "paper_constants \<Rightarrow> transaction \<Rightarrow> dispatch \<Rightarrow> int \<Rightarrow> string
     \<Rightarrow> js_error + set_result" where
  "setPagePaperSize K tr dispatch pagePos paperSize =
     (case nodeAt (tr_doc tr) pagePos of
        Inl thrown \<Rightarrow> Inl thrown
      | Inr None \<Rightarrow> Inr (rejected tr [Error_NoNodeAtPos pagePos])
      | Inr (Some pageNode) \<Rightarrow>
          Inr (setPageNodePosPaperSize K tr dispatch pagePos pageNode paperSize))"

text \<open>\<open>isValidColour\<close> of \<open>utils/colour\<close> is not among the sources; it is a parameter.\<close>

definition setPageNodePosPaperColour ::
  "(string \<Rightarrow> bool) \<Rightarrow> transaction \<Rightarrow> dispatch \<Rightarrow> int \<Rightarrow> pm_node \<Rightarrow> string \<Rightarrow> set_result" where
  "setPageNodePosPaperColour isValidColour tr dispatch pagePos pageNode paperColour =
     (if dispatch = NoDispatch then rejected tr []
      else if \<not> isValidColour paperColour then rejected tr [Warn_InvalidPaperColour paperColour]
      else if \<not> isPageNode pageNode then rejected tr [Error_NotPageNode pagePos]
      else if getPageNodePaperColour pageNode = Some (AStr paperColour) then rejected tr []
      else (let tr' = setPageNodeAttribute tr pagePos pageNode PAGE_NODE_PAPER_COLOUR_ATTR
                        (AStr paperColour)
            in \<lparr> returned = True, tr_after = tr', dispatched = [tr'], logged = [] \<rparr>))"

text \<open>
  A call that changed nothing: it returned \<open>false\<close>, left the transaction as it was
  and handed nothing to \<open>dispatch\<close>.
\<close>

definition is_rejection :: "set_result \<Rightarrow> transaction \<Rightarrow> bool" where
  "is_rejection r tr = (\<not> returned r \<and> tr_after r = tr \<and> dispatched r = [])"

text \<open>
  Two calls of a setter in succession at one position with one value. The first call
  gets the node \<open>pageNode\<close>, the second the node that stands at the position in the
  transaction the first call left. The first call returns \<open>true\<close> and dispatches that
  transaction; the second changes nothing.
\<close>

definition set_twice ::
  "(transaction \<Rightarrow> pm_node \<Rightarrow> set_result) \<Rightarrow> transaction \<Rightarrow> int \<Rightarrow> pm_node \<Rightarrow> bool" where
  "set_twice setter tr pagePos pageNode =
     (let first = setter tr pageNode
      in returned first \<and> dispatched first = [tr_after first] \<and>
         (case nodeAt (tr_doc (tr_after first)) pagePos of
            Inr (Some pageNode') \<Rightarrow>
              is_rejection (setter (tr_after first) pageNode') (tr_after first)
          | _ \<Rightarrow> False))"

section \<open>The page node (Nodes/Page.ts)\<close>

definition baseElement :: string where
  "baseElement = ''div''"

definition dataPageAttribute :: string where
  "dataPageAttribute = ''data-page''"

text \<open>An element of the parsed HTML: tag name, attributes, and \<open>parentElement\<close>.\<close>

datatype html_element =
  Element (tag: string) (attributes: "(string \<times> string) list") (parentElement: "html_element option")

definition getAttribute :: "html_element \<Rightarrow> string \<Rightarrow> string option" where
  "getAttribute el name = map_of (attributes el) name"

definition hasAttribute :: "html_element \<Rightarrow> string \<Rightarrow> bool" where
  "hasAttribute el name = (name \<in> set (map fst (attributes el)))"

subsection \<open>The declared attributes\<close>

text \<open>
  \<open>addAttributes\<close>: the names the node declares, each with the value the declaration
  gives for it. The \<open>parseHTML\<close> and \<open>renderHTML\<close> hooks of \<open>pageMargins\<close> follow.
\<close>

definition addAttributes :: "paper_constants \<Rightarrow> (string \<times> attr_value) list" where
  "addAttributes K =
     [(PAGE_NODE_PAPER_SIZE_ATTR, AStr (DEFAULT_PAPER_SIZE K)),
      (PAGE_NODE_PAPER_COLOUR_ATTR, AStr (DEFAULT_PAPER_COLOUR K)),
      (PAGE_NODE_PAPER_ORIENTATION_ATTR, AStr (DEFAULT_PAPER_ORIENTATION K)),
      (PAGE_NODE_PAGE_MARGINS_ATTR, AMargins (DEFAULT_MARGIN_CONFIG K)),
      (PAGE_NODE_PAGE_GAP_ATTR, ANum (DEFAULT_PAGE_GAP K))]"

subsection \<open>The \<open>pageMargins\<close> attribute hooks\<close>

text \<open>
  \<open>JSON.parse\<close> and \<open>JSON.stringify\<close> belong to the language runtime and are parameters.
  \<open>JSON.parse\<close> either returns a value or throws a \<open>SyntaxError\<close>. The hook has no
  handler, so what \<open>JSON.parse\<close> throws leaves the hook. An empty string is falsy.
\<close>

definition pageMargins_parseHTML ::
  "(string \<Rightarrow> js_error + attr_value) \<Rightarrow> paper_constants \<Rightarrow> html_element
     \<Rightarrow> js_error + attr_value" where
  "pageMargins_parseHTML JSON_parse K element =
     (case getAttribute element PAGE_NODE_PAGE_MARGINS_ATTR of
        None \<Rightarrow> Inr (AMargins (DEFAULT_MARGIN_CONFIG K))
      | Some margins \<Rightarrow>
          if margins \<noteq> [] then JSON_parse margins
          else Inr (AMargins (DEFAULT_MARGIN_CONFIG K)))"

definition pageMargins_renderHTML ::
  "(attr_value option \<Rightarrow> string) \<Rightarrow> (string \<times> attr_value) list \<Rightarrow> (string \<times> string) list" where
  "pageMargins_renderHTML JSON_stringify attributes' =
     [(PAGE_NODE_PAGE_MARGINS_ATTR,
       JSON_stringify (map_of attributes' PAGE_NODE_PAGE_MARGINS_ATTR))]"

subsection \<open>The HTML parse rule\<close>

text \<open>
  A parse rule is a selector and a \<open>getAttrs\<close> function; the host takes an element for
  the rule's node type when the element matches the selector and \<open>getAttrs\<close> does not
  return \<open>false\<close> (here \<open>None\<close>). The selector \<open>div[data-page]\<close> asks for the tag and
  for the attribute.
\<close>

datatype selector = TagWithAttribute string string

definition matches :: "html_element \<Rightarrow> selector \<Rightarrow> bool" where
  "matches el sel = (case sel of TagWithAttribute t a \<Rightarrow> tag el = t \<and> hasAttribute el a)"

record parse_rule =
  rule_tag :: selector
  rule_getAttrs :: "html_element \<Rightarrow> (string \<times> attr_value) list option"

definition page_getAttrs :: "html_element \<Rightarrow> (string \<times> attr_value) list option" where
  "page_getAttrs node =
     (case parentElement node of
        Some parent \<Rightarrow> if hasAttribute parent dataPageAttribute then None else Some []
      | None \<Rightarrow> Some [])"

definition parseHTML :: "parse_rule list" where
  "parseHTML =
     [\<lparr> rule_tag = TagWithAttribute baseElement dataPageAttribute,
        rule_getAttrs = page_getAttrs \<rparr>]"

definition rule_accepts :: "parse_rule \<Rightarrow> html_element \<Rightarrow> bool" where
  "rule_accepts r el = (matches el (rule_tag r) \<and> rule_getAttrs r el \<noteq> None)"

definition page_rule_accepts :: "html_element \<Rightarrow> bool" where
  "page_rule_accepts el = (\<exists>r \<in> set parseHTML. rule_accepts r el)"

subsection \<open>The node view\<close>

text \<open>
  Modelled from the spec: \<open>getPageNodePaperOrientation\<close> and \<open>getPageNodePaperMargins\<close>
  are not among the sources; like the two accessors of \<open>utils/paper.ts\<close>, each reads its
  own attribute of the node.
\<close>

definition getPageNodePaperOrientation :: "pm_node \<Rightarrow> attr_value option" where
  "getPageNodePaperOrientation pageNode =
     map_of (attrs pageNode) PAGE_NODE_PAPER_ORIENTATION_ATTR"

definition getPageNodePaperMargins :: "pm_node \<Rightarrow> attr_value option" where
  "getPageNodePaperMargins pageNode = map_of (attrs pageNode) PAGE_NODE_PAGE_MARGINS_ATTR"

text \<open>
  \<open>mm\<close>, \<open>calculatePagePadding\<close> and the two-argument \<open>getPaperDimensions\<close> of
  \<open>utils/paperSize\<close> are not among the sources; the node view takes them as the
  record \<open>V\<close>.
\<close>

record view_helpers =
  mm :: "number \<Rightarrow> string"
  calculatePagePadding :: "attr_value \<Rightarrow> string"
  getOrientedPaperDimensions :: "attr_value \<Rightarrow> attr_value \<Rightarrow> paper_dimensions"

record page_node_options =
  opt_paperSize :: string
  opt_paperColour :: string
  opt_paperOrientation :: string
  opt_pageMargins :: string
  pageGap :: number

record dom_style =
  style_width :: string
  style_height :: string
  style_padding :: string
  style_border :: string
  style_background :: attr_value
  style_overflow :: string
  style_position :: string
  style_marginTop :: string
  style_marginLeft :: string
  style_marginRight :: string

datatype dom_element =
  DomElement (dom_tag: string) (dom_attributes: "(string \<times> string) list")
    (dom_classList: "string list") (dom_style: "dom_style option")
    (dom_children: "dom_element list")

record node_view =
  view_dom :: dom_element
  contentDOM :: dom_element

definition addNodeView ::
  "view_helpers \<Rightarrow> paper_constants \<Rightarrow> page_node_options \<Rightarrow> pm_node \<Rightarrow> node_view" where
  "addNodeView V K options node =
     (let paperSize = nullish_or (getPageNodePaperSize node) (AStr (DEFAULT_PAPER_SIZE K));
          paperOrientation = nullish_or (getPageNodePaperOrientation node)
                               (AStr (DEFAULT_PAPER_ORIENTATION K));
          paperMargins = nullish_or (getPageNodePaperMargins node)
                           (AMargins (DEFAULT_MARGIN_CONFIG K));
          dims = getOrientedPaperDimensions V paperSize paperOrientation;
          paperColour = nullish_or (getPageNodePaperColour node) (AStr (DEFAULT_PAPER_COLOUR K));
          contentDOM' = DomElement baseElement [] [] None []
      in \<lparr> view_dom =
             DomElement baseElement [(dataPageAttribute, ''true'')] [PAGE_NODE_NAME]
               (Some
                 \<lparr> style_width = mm V (width dims),
                   style_height = mm V (height dims),
                   style_padding = calculatePagePadding V paperMargins,
                   style_border = ''1px solid #ccc'',
                   style_background = paperColour,
                   style_overflow = ''hidden'',
                   style_position = ''relative'',
                   style_marginTop = mm V (pageGap options),
                   style_marginLeft = ''auto'',
                   style_marginRight = ''auto'' \<rparr>)
               [contentDOM'],
           contentDOM = contentDOM' \<rparr>)"

subsection \<open>The clipboard serializer\<close>

text \<open>
  The host's \<open>DOMSerializer\<close>: \<open>serializeNode\<close> builds and returns the DOM of one node
  (it is the schema's, hence a parameter), and \<open>serializeFragment\<close> appends the DOM of
  each node of a fragment to the target and returns the target. The target, a DOM
  fragment, is the list of its children.
\<close>

definition serializeFragment :: "(pm_node \<Rightarrow> 'dom) \<Rightarrow> pm_node list \<Rightarrow> 'dom list \<Rightarrow> 'dom list" where
  "serializeFragment serializeNode fragment target = target @ map serializeNode fragment"

text \<open>
  The override. A call without a target starts from an empty DOM fragment. The body of
  \<open>forEach\<close> is one step; in its second branch the node that \<open>serializeNode\<close> returns is
  not used.
\<close>

definition paginationSerializeStep :: "(pm_node \<Rightarrow> 'dom) \<Rightarrow> 'dom list \<Rightarrow> pm_node \<Rightarrow> 'dom list" where
  "paginationSerializeStep serializeNode target node =
     (if isPageNode node then serializeFragment serializeNode (content node) target
      else (let unused = serializeNode node in target))"

definition paginationSerializeFragment ::
  "(pm_node \<Rightarrow> 'dom) \<Rightarrow> pm_node list \<Rightarrow> 'dom list option \<Rightarrow> 'dom list" where
  "paginationSerializeFragment serializeNode fragment target =
     foldl (paginationSerializeStep serializeNode)
       (case target of None \<Rightarrow> [] | Some given \<Rightarrow> given) fragment"

section \<open>Example data\<close>

text \<open>
  A table, defaults, a document and collaborators to evaluate the definitions on. The
  document holds two pages, at positions 0 and 4, each with one paragraph; its content
  has size 8.
\<close>

definition example_constants :: paper_constants where
  "example_constants =
     \<lparr> paperDimensions = [(''A4'', \<lparr> width = 210, height = 297 \<rparr>),
                          (''Letter'', \<lparr> width = 216, height = 279 \<rparr>)],
       DEFAULT_PAPER_SIZE = ''A4'',
       DEFAULT_PAPER_COLOUR = ''#fff'',
       DEFAULT_PAPER_ORIENTATION = ''portrait'',
       DEFAULT_MARGIN_CONFIG =
         \<lparr> margin_top = 25, margin_right = 25, margin_bottom = 25, margin_left = 25 \<rparr>,
       DEFAULT_PAGE_GAP = 12 \<rparr>"

definition example_doc :: document where
  "example_doc =
     \<lparr> doc_nodes =
         [(0, PMNode ''page'' [(''paperSize'', AStr ''A4''), (''paperColour'', AStr ''#fff'')]
                [PMNode ''paragraph'' [] []]),
          (1, PMNode ''paragraph'' [] []),
          (4, PMNode ''page'' [(''paperSize'', AStr ''Letter''), (''paperColour'', ANull)]
                [PMNode ''paragraph'' [] []]),
          (5, PMNode ''paragraph'' [] [])],
       content_size = 8 \<rparr>"

definition empty_doc :: document where
  "empty_doc = \<lparr> doc_nodes = [], content_size = 0 \<rparr>"

definition paragraph_doc :: document where
  "paragraph_doc = \<lparr> doc_nodes = [(0, PMNode ''paragraph'' [] [])], content_size = 2 \<rparr>"

definition example_page :: pm_node where
  "example_page =
     PMNode ''page'' [(''paperSize'', AStr ''A4''), (''paperColour'', AStr ''#fff'')]
       [PMNode ''paragraph'' [] []]"

definition example_tr :: transaction where
  "example_tr = \<lparr> tr_doc = example_doc, tr_steps = [] \<rparr>"

definition example_isValidColour :: "string \<Rightarrow> bool" where
  "example_isValidColour c = (c \<in> set [''#fff'', ''#000'', ''red''])"

definition example_view_helpers :: view_helpers where
  "example_view_helpers =
     \<lparr> mm = (\<lambda>n. if n = 20 then ''20mm'' else if n = 210 then ''210mm''
                   else if n = 297 then ''297mm'' else ''?mm''),
       calculatePagePadding = (\<lambda>m. ''25mm''),
       getOrientedPaperDimensions = (\<lambda>s orientation. \<lparr> width = 210, height = 297 \<rparr>) \<rparr>"

definition example_options :: page_node_options where
  "example_options =
     \<lparr> opt_paperSize = ''A4'', opt_paperColour = ''#fff'', opt_paperOrientation = ''portrait'',
       opt_pageMargins = ''normal'', pageGap = 20 \<rparr>"

section \<open>Facts about the example data\<close>

lemma pages_example_doc:
  "pages example_doc =
     [PMNode ''page'' [(''paperSize'', AStr ''A4''), (''paperColour'', AStr ''#fff'')]
            [PMNode ''paragraph'' [] []],
      PMNode ''page'' [(''paperSize'', AStr ''Letter''), (''paperColour'', ANull)]
            [PMNode ''paragraph'' [] []]]"
  by (simp add: pages_def example_doc_def isPageNode_def PAGE_NODE_NAME_def)

lemma example_facts:
  "nodeAt (tr_doc example_tr) 0 = Inr (Some example_page)"
  "nodeAt (tr_doc example_tr) 2 = Inr None"
  "nodeAt (tr_doc example_tr) 99 = Inl RangeError"
  "nodeAt (tr_doc example_tr) (-1) = Inl RangeError"
  "nodeAt (tr_doc example_tr) 1 = Inr (Some (PMNode ''paragraph'' [] []))"
  "isPageNode example_page"
  "\<not> isPageNode (PMNode ''paragraph'' [] [])"
  "getPageNodePaperSize example_page = Some (AStr ''A4'')"
  "getPageNodePaperColour example_page = Some (AStr ''#fff'')"
  "isValidPaperSize example_constants ''A4''"
  "isValidPaperSize example_constants ''Letter''"
  "\<not> isValidPaperSize example_constants ''B9''"
  "example_isValidColour ''#000''"
  "\<not> example_isValidColour ''bogus''"
  by (simp_all add: example_tr_def example_doc_def example_page_def nodeAt_def isPageNode_def
        PAGE_NODE_NAME_def getPageNodePaperSize_def getPageNodePaperColour_def
        PAGE_NODE_PAPER_SIZE_ATTR_def PAGE_NODE_PAPER_COLOUR_ATTR_def
        isValidPaperSize_def js_in_def example_constants_def Object_prototype_keys_def
        example_isValidColour_def)

section \<open>Paper geometry: what \<open>getPaperDimensions\<close> returns\<close>

text \<open>
  What holds when the default identifier is a key of the table: \<open>getPaperDimensions\<close>
  never returns \<open>undefined\<close>; for a key of the table it returns that key's entry; and
  for an identifier that is neither a key nor the name of a member inherited from
  \<open>Object.prototype\<close> it returns the entry of the default identifier.
\<close>

lemma getPaperDimensions_entry_or_default:
  assumes "map_of (paperDimensions K) (DEFAULT_PAPER_SIZE K) = Some d0"
  shows "getPaperDimensions K paperSize \<noteq> Undefined"
    and "map_of (paperDimensions K) paperSize = Some d \<Longrightarrow>
           getPaperDimensions K paperSize = Own d"
    and "paperSize \<notin> set (map fst (paperDimensions K)) \<Longrightarrow>
         paperSize \<notin> set Object_prototype_keys \<Longrightarrow>
           getPaperDimensions K paperSize = Own d0"
proof -
  show "getPaperDimensions K paperSize \<noteq> Undefined"
    using assms
    by (auto simp add: getPaperDimensions_def isValidPaperSize_def js_in_def js_get_def
          map_of_eq_None_iff split: option.splits)
next
  assume own: "map_of (paperDimensions K) paperSize = Some d"
  then have "paperSize \<in> set (map fst (paperDimensions K))"
    by (metis domI dom_map_of_conv_image_fst set_map)
  then show "getPaperDimensions K paperSize = Own d"
    using own by (simp add: getPaperDimensions_def isValidPaperSize_def js_in_def js_get_def)
next
  assume "paperSize \<notin> set (map fst (paperDimensions K))"
    and "paperSize \<notin> set Object_prototype_keys"
  then have "\<not> isValidPaperSize K paperSize"
    by (simp add: isValidPaperSize_def js_in_def)
  then show "getPaperDimensions K paperSize = Own d0"
    using assms by (simp add: getPaperDimensions_def js_get_def)
qed

text \<open>
  Claim C7. The claim has \<open>getPaperDimensions\<close> return the default identifier's
  dimensions for every identifier that is not a key of the table. At \<open>constructor\<close>
  the code does not: the identifier is not a key of the table, yet the \<open>in\<close> test of
  \<open>isValidPaperSize\<close> finds the member every object inherits and reports the
  identifier valid, and \<open>getPaperDimensions\<close> returns that inherited member, where
  for another identifier missing from the table (\<open>B9\<close>) it returns the default's
  dimensions.
\<close>

theorem getPaperDimensions_returns_inherited_member:
  "''constructor'' \<notin> set (map fst (paperDimensions example_constants))
   \<and> isValidPaperSize example_constants ''constructor''
   \<and> getPaperDimensions example_constants ''constructor'' = Inherited ''constructor''
   \<and> getPaperDimensions example_constants (DEFAULT_PAPER_SIZE example_constants)
       = Own \<lparr> width = 210, height = 297 \<rparr>
   \<and> ''B9'' \<notin> set (map fst (paperDimensions example_constants))
   \<and> \<not> isValidPaperSize example_constants ''B9''
   \<and> getPaperDimensions example_constants ''B9'' = Own \<lparr> width = 210, height = 297 \<rparr>"
  by (simp add: getPaperDimensions_def isValidPaperSize_def js_in_def js_get_def
        example_constants_def Object_prototype_keys_def)

section \<open>The resolver with the spec's helpers\<close>

lemma page_utils_simps:
  "doesDocHavePageNodes page_utils = spec_doesDocHavePageNodes"
  "isPageNumInRange page_utils = spec_isPageNumInRange"
  "getLastPageNum page_utils = spec_getLastPageNum"
  "getPageNodeByPageNum page_utils = spec_getPageNodeByPageNum"
  by (simp_all add: page_utils_def)

lemma getPageAttribute_pageless:
  assumes "\<not> doesDocHavePageNodes h st"
  shows "getPageAttribute h st pageNum getDefault getNodeAttribute = Some (getDefault (), [])"
  using assms by (subst getPageAttribute.simps) simp

lemma getPageAttribute_in_range:
  assumes "pages (doc st) \<noteq> []" and "spec_isPageNumInRange (doc st) pageNum"
  shows "getPageAttribute page_utils st pageNum getDefault getNodeAttribute =
           Some (nullish_or (getNodeAttribute (pages (doc st) ! nat pageNum)) (getDefault ()), [])"
  using assms
  by (subst getPageAttribute.simps)
     (simp add: page_utils_simps spec_doesDocHavePageNodes_def spec_getPageNodeByPageNum_def)

lemma last_page_in_range:
  assumes "pages d \<noteq> []"
  shows "spec_isPageNumInRange d (spec_getLastPageNum d)"
  using assms by (cases "pages d") (simp_all add: spec_isPageNumInRange_def spec_getLastPageNum_def)

lemma last_page_node:
  assumes "pages d \<noteq> []"
  shows "pages d ! nat (spec_getLastPageNum d) = last (pages d)"
  using assms by (simp add: spec_getLastPageNum_def last_conv_nth nat_diff_distrib')

lemma retry_result:
  assumes "pages (doc st) \<noteq> []"
  shows "handleOutOfRangePageNum page_utils st pageNum
           (\<lambda>s p. getPageAttribute page_utils s p getDefault getNodeAttribute) =
         Some (nullish_or (getNodeAttribute (last (pages (doc st)))) (getDefault ()),
               [Warn_PageNumOutOfRange pageNum])"
  using assms
  by (simp add: handleOutOfRangePageNum_def page_utils_simps
        getPageAttribute_in_range last_page_in_range last_page_node)

lemma getPageAttribute_out_of_range:
  assumes "pages (doc st) \<noteq> []" and "\<not> spec_isPageNumInRange (doc st) pageNum"
  shows "getPageAttribute page_utils st pageNum getDefault getNodeAttribute =
           Some (nullish_or (getNodeAttribute (last (pages (doc st)))) (getDefault ()),
                 [Warn_PageNumOutOfRange pageNum])"
  using assms
  by (subst getPageAttribute.simps)
     (simp add: page_utils_simps spec_doesDocHavePageNodes_def retry_result)

lemma retried_onceI:
  assumes "resolve lastPageNum = Some (v, [])"
    and "resolve pageNum = Some (v, [Warn_PageNumOutOfRange pageNum])"
  shows "retried_once resolve lastPageNum pageNum"
  using assms by (simp add: retried_once_def)

lemma getPageAttribute_retried_once:
  assumes "pages (doc st) \<noteq> []"
    and "pageNum < 0 \<or> int (length (pages (doc st))) \<le> pageNum"
  shows "retried_once (\<lambda>p. getPageAttribute page_utils st p getDefault getNodeAttribute)
           (int (length (pages (doc st))) - 1) pageNum"
proof (rule retried_onceI)
  have last: "int (length (pages (doc st))) - 1 = spec_getLastPageNum (doc st)"
    by (simp add: spec_getLastPageNum_def)
  show "getPageAttribute page_utils st (int (length (pages (doc st))) - 1) getDefault
          getNodeAttribute =
        Some (nullish_or (getNodeAttribute (last (pages (doc st)))) (getDefault ()), [])"
    unfolding last using assms(1)
    by (simp add: getPageAttribute_in_range last_page_in_range last_page_node)
  have "\<not> spec_isPageNumInRange (doc st) pageNum"
    using assms(2) by (auto simp add: spec_isPageNumInRange_def spec_getLastPageNum_def)
  then show "getPageAttribute page_utils st pageNum getDefault getNodeAttribute =
        Some (nullish_or (getNodeAttribute (last (pages (doc st)))) (getDefault ()),
              [Warn_PageNumOutOfRange pageNum])"
    using assms(1) by (rule getPageAttribute_out_of_range[rotated])
qed

text \<open>
  Claim C8. When the document has no page node, \<open>getPageAttribute\<close> and the four
  public resolvers return the value of the default provider, with no diagnostic, for
  every page number and whatever the range check, the last-page helper and the node
  lookup would compute: none of them contributes to the result.
\<close>

theorem pageless_document_resolves_to_default:
  assumes "pages (doc st) = []"
  shows "getPageAttribute (helpers_with r l g) st pageNum getDefault getNodeAttribute
           = Some (getDefault (), [])
       \<and> getPageNumPaperSize (helpers_with r l g) \<lparr> state = st, commands = c \<rparr> pageNum
           = Some (getDefaultPaperSize c (), [])
       \<and> getPageNumPaperSizeFromState K (helpers_with r l g) st pageNum
           = Some (AStr (DEFAULT_PAPER_SIZE K), [])
       \<and> getPageNumPaperColour (helpers_with r l g) \<lparr> state = st, commands = c \<rparr> pageNum
           = Some (getDefaultPaperColour c (), [])
       \<and> getPageNumPaperColourFromState K (helpers_with r l g) st pageNum
           = Some (AStr (DEFAULT_PAPER_COLOUR K), [])"
proof -
  have "\<not> doesDocHavePageNodes (helpers_with r l g) st"
    using assms by (simp add: helpers_with_def spec_doesDocHavePageNodes_def)
  then show ?thesis
    by (simp add: getPageNumPaperSize_def getPageNumPaperSizeFromState_def
          getPageNumPaperColour_def getPageNumPaperColourFromState_def
          getPageAttribute_pageless)
qed

theorem pageless_document_resolves_to_default_witness:
  "pages (doc \<lparr> doc = paragraph_doc \<rparr>) = []
   \<and> getPageNumPaperSizeFromState example_constants page_utils
         \<lparr> doc = paragraph_doc \<rparr> 3 = Some (AStr ''A4'', [])
   \<and> getPageNumPaperColourFromState example_constants
         (helpers_with (\<lambda>d p. False) (\<lambda>d. 0) (\<lambda>d p. None))
         \<lparr> doc = paragraph_doc \<rparr> (-2) = Some (AStr ''#fff'', [])"
proof -
  let ?st = "\<lparr> doc = paragraph_doc \<rparr>"
  have h: "pages (doc ?st) = []"
    by (simp add: pages_def paragraph_doc_def isPageNode_def PAGE_NODE_NAME_def)
  have u: "page_utils = helpers_with spec_isPageNumInRange spec_getLastPageNum
                          spec_getPageNodeByPageNum"
    by (simp add: page_utils_def helpers_with_def)
  show ?thesis
    using h pageless_document_resolves_to_default [OF h, of _ _ _ 3 _ _ _ example_constants]
      pageless_document_resolves_to_default [OF h, of _ _ _ "-2" _ _ _ example_constants]
    by (simp add: u example_constants_def)
qed

text \<open>
  Claim C5. In a document with \<open>N \<ge> 1\<close> page nodes, resolving an attribute for a page
  number below \<open>0\<close> or at least \<open>N\<close> returns what resolving it for page \<open>N - 1\<close>
  returns and emits exactly one diagnostic, the out-of-range warning; this holds for
  \<open>getPageAttribute\<close> and for its four public instantiations. The traversal helpers
  are the spec's.
\<close>

theorem out_of_range_page_resolves_as_last_page:
  assumes "pages (doc st) \<noteq> []"
    and "pageNum < 0 \<or> int (length (pages (doc st))) \<le> pageNum"
  shows "retried_once (\<lambda>p. getPageAttribute page_utils st p getDefault getNodeAttribute)
           (int (length (pages (doc st))) - 1) pageNum
       \<and> retried_once (\<lambda>p. getPageNumPaperSize page_utils \<lparr> state = st, commands = c \<rparr> p)
           (int (length (pages (doc st))) - 1) pageNum
       \<and> retried_once (getPageNumPaperSizeFromState K page_utils st)
           (int (length (pages (doc st))) - 1) pageNum
       \<and> retried_once (\<lambda>p. getPageNumPaperColour page_utils \<lparr> state = st, commands = c \<rparr> p)
           (int (length (pages (doc st))) - 1) pageNum
       \<and> retried_once (getPageNumPaperColourFromState K page_utils st)
           (int (length (pages (doc st))) - 1) pageNum"
  unfolding getPageNumPaperSize_def getPageNumPaperSizeFromState_def
    getPageNumPaperColour_def getPageNumPaperColourFromState_def
  using assms by (simp add: getPageAttribute_retried_once)

theorem out_of_range_page_resolves_as_last_page_witness:
  "pages (doc \<lparr> doc = example_doc \<rparr>) \<noteq> []
   \<and> ((7::int) < 0 \<or> int (length (pages (doc \<lparr> doc = example_doc \<rparr>))) \<le> 7)
   \<and> getPageNumPaperSizeFromState example_constants page_utils \<lparr> doc = example_doc \<rparr> 1
       = Some (AStr ''Letter'', [])
   \<and> getPageNumPaperSizeFromState example_constants page_utils \<lparr> doc = example_doc \<rparr> 7
       = Some (AStr ''Letter'', [Warn_PageNumOutOfRange 7])"
proof -
  let ?st = "\<lparr> doc = example_doc \<rparr>"
  have h1: "pages (doc ?st) \<noteq> []"
    by (simp add: pages_example_doc)
  have h2: "(7::int) < 0 \<or> int (length (pages (doc ?st))) \<le> 7"
    by (simp add: pages_example_doc)
  have last: "getPageNumPaperSizeFromState example_constants page_utils ?st 1
                = Some (AStr ''Letter'', [])"
    by (simp add: getPageNumPaperSizeFromState_def getPageAttribute_in_range
          pages_example_doc spec_isPageNumInRange_def spec_getLastPageNum_def
          getPageNodePaperSize_def nullish_or_def PAGE_NODE_PAPER_SIZE_ATTR_def)
  have "retried_once (getPageNumPaperSizeFromState example_constants page_utils ?st)
          (int (length (pages (doc ?st))) - 1) 7"
    using out_of_range_page_resolves_as_last_page [OF h1 h2, of _ _ _ example_constants]
    by blast
  then have "getPageNumPaperSizeFromState example_constants page_utils ?st 7
               = Some (AStr ''Letter'', [Warn_PageNumOutOfRange 7])"
    using last by (simp add: retried_once_def pages_example_doc)
  with h1 h2 last show ?thesis by blast
qed

text \<open>
  Claim C6. With the spec's helpers every call of \<open>getPageAttribute\<close> returns. When
  the document has page nodes, the last page number is in range, so the call that
  \<open>handleOutOfRangePageNum\<close> makes returns without a further retry: the retry as a
  whole emits the one warning only. The retried call starts with the check for a
  pageless document: for any helpers, if that check finds no page node the retry
  returns the default without a node lookup.
\<close>

theorem out_of_range_retry_is_bounded:
  "getPageAttribute page_utils st pageNum getDefault getNodeAttribute \<noteq> None
   \<and> (doesDocHavePageNodes page_utils st \<longrightarrow>
        isPageNumInRange page_utils (doc st) (getLastPageNum page_utils (doc st))
      \<and> handleOutOfRangePageNum page_utils st pageNum
          (\<lambda>s p. getPageAttribute page_utils s p getDefault getNodeAttribute)
        = Some (nullish_or (getNodeAttribute (last (pages (doc st)))) (getDefault ()),
                [Warn_PageNumOutOfRange pageNum]))
   \<and> (\<not> doesDocHavePageNodes h st \<longrightarrow>
        handleOutOfRangePageNum h st pageNum
          (\<lambda>s p. getPageAttribute h s p getDefault getNodeAttribute)
        = Some (getDefault (), [Warn_PageNumOutOfRange pageNum]))"
proof (intro conjI impI)
  show "getPageAttribute page_utils st pageNum getDefault getNodeAttribute \<noteq> None"
  proof (cases "pages (doc st) = []")
    case True
    then have "\<not> doesDocHavePageNodes page_utils st"
      by (simp add: page_utils_simps spec_doesDocHavePageNodes_def)
    then show ?thesis by (simp add: getPageAttribute_pageless)
  next
    case False
    then show ?thesis
      by (cases "spec_isPageNumInRange (doc st) pageNum")
         (simp_all add: getPageAttribute_in_range getPageAttribute_out_of_range)
  qed
next
  assume "doesDocHavePageNodes page_utils st"
  then have ne: "pages (doc st) \<noteq> []"
    by (simp add: page_utils_simps spec_doesDocHavePageNodes_def)
  then show "isPageNumInRange page_utils (doc st) (getLastPageNum page_utils (doc st))"
    by (simp add: page_utils_simps last_page_in_range)
  from ne show "handleOutOfRangePageNum page_utils st pageNum
          (\<lambda>s p. getPageAttribute page_utils s p getDefault getNodeAttribute)
        = Some (nullish_or (getNodeAttribute (last (pages (doc st)))) (getDefault ()),
                [Warn_PageNumOutOfRange pageNum])"
    by (rule retry_result)
next
  assume "\<not> doesDocHavePageNodes h st"
  then show "handleOutOfRangePageNum h st pageNum
          (\<lambda>s p. getPageAttribute h s p getDefault getNodeAttribute)
        = Some (getDefault (), [Warn_PageNumOutOfRange pageNum])"
    by (simp add: handleOutOfRangePageNum_def getPageAttribute_pageless)
qed

theorem out_of_range_retry_is_bounded_witness:
  "doesDocHavePageNodes page_utils \<lparr> doc = example_doc \<rparr>
   \<and> \<not> doesDocHavePageNodes page_utils \<lparr> doc = empty_doc \<rparr>
   \<and> getPageAttribute page_utils \<lparr> doc = example_doc \<rparr> 9 (\<lambda>_. AStr ''A4'') getPageNodePaperSize
       \<noteq> None
   \<and> isPageNumInRange page_utils example_doc (getLastPageNum page_utils example_doc)
   \<and> handleOutOfRangePageNum page_utils \<lparr> doc = example_doc \<rparr> 9
        (\<lambda>s p. getPageAttribute page_utils s p (\<lambda>_. AStr ''A4'') getPageNodePaperSize)
       = Some (AStr ''Letter'', [Warn_PageNumOutOfRange 9])
   \<and> handleOutOfRangePageNum page_utils \<lparr> doc = empty_doc \<rparr> 9
        (\<lambda>s p. getPageAttribute page_utils s p (\<lambda>_. AStr ''A4'') getPageNodePaperSize)
       = Some (AStr ''A4'', [Warn_PageNumOutOfRange 9])"
proof -
  have h1: "doesDocHavePageNodes page_utils \<lparr> doc = example_doc \<rparr>"
    by (simp add: page_utils_simps spec_doesDocHavePageNodes_def pages_example_doc)
  have h2: "\<not> doesDocHavePageNodes page_utils \<lparr> doc = empty_doc \<rparr>"
    by (simp add: page_utils_simps spec_doesDocHavePageNodes_def pages_def empty_doc_def)
  show ?thesis
    using h1 h2
      out_of_range_retry_is_bounded
        [of "\<lparr> doc = example_doc \<rparr>" 9 "\<lambda>_. AStr ''A4''" getPageNodePaperSize
            page_utils]
      out_of_range_retry_is_bounded
        [of "\<lparr> doc = empty_doc \<rparr>" 9 "\<lambda>_. AStr ''A4''" getPageNodePaperSize page_utils]
    by (simp add: pages_example_doc getPageNodePaperSize_def nullish_or_def
          PAGE_NODE_PAPER_SIZE_ATTR_def)
qed

section \<open>The mutator: rejected calls\<close>

lemma is_rejection_rejected: "is_rejection (rejected tr ds) tr"
  by (simp add: is_rejection_def rejected_def)

lemma setPageNodePosPaperSize_failure:
  assumes "dispatch = NoDispatch \<or> \<not> isValidPaperSize K paperSize \<or> \<not> isPageNode pageNode"
  shows "is_rejection (setPageNodePosPaperSize K tr dispatch pagePos pageNode paperSize) tr"
  using assms by (auto simp add: setPageNodePosPaperSize_def is_rejection_rejected)

lemma setPageNodePosPaperColour_failure:
  assumes "dispatch = NoDispatch \<or> \<not> isValidColour paperColour \<or> \<not> isPageNode pageNode"
  shows "is_rejection
           (setPageNodePosPaperColour isValidColour tr dispatch pagePos pageNode paperColour) tr"
  using assms by (auto simp add: setPageNodePosPaperColour_def is_rejection_rejected)

text \<open>
  Where the lookup returns, \<open>setPagePaperSize\<close> returns, and it rejects when the lookup
  found no node or a failing test of \<open>setPageNodePosPaperSize\<close> applies.
\<close>

lemma setPagePaperSize_failure:
  assumes "nodeAt (tr_doc tr) pagePos = Inr found"
    and "dispatch = NoDispatch \<or> \<not> isValidPaperSize K paperSize
         \<or> (case found of None \<Rightarrow> True | Some n \<Rightarrow> \<not> isPageNode n)"
  shows "\<exists>r. setPagePaperSize K tr dispatch pagePos paperSize = Inr r \<and> is_rejection r tr"
proof (cases found)
  case None
  with assms(1) show ?thesis
    by (simp add: setPagePaperSize_def is_rejection_rejected)
next
  case (Some n)
  with assms(2) have "dispatch = NoDispatch \<or> \<not> isValidPaperSize K paperSize \<or> \<not> isPageNode n"
    by simp
  then have "is_rejection (setPageNodePosPaperSize K tr dispatch pagePos n paperSize) tr"
    by (rule setPageNodePosPaperSize_failure)
  with assms(1) Some show ?thesis
    by (simp add: setPagePaperSize_def)
qed

lemma setPagePaperSize_throws:
  assumes "pagePos < 0 \<or> content_size (tr_doc tr) < pagePos"
  shows "setPagePaperSize K tr dispatch pagePos paperSize = Inl RangeError"
  using assms by (auto simp add: setPagePaperSize_def nodeAt_def)

lemma setPageNodePosPaperSize_already_set:
  assumes "getPageNodePaperSize pageNode = Some (AStr paperSize)"
  shows "is_rejection (setPageNodePosPaperSize K tr dispatch pagePos pageNode paperSize) tr"
  using assms by (simp add: setPageNodePosPaperSize_def is_rejection_rejected)

lemma setPageNodePosPaperColour_already_set:
  assumes "getPageNodePaperColour pageNode = Some (AStr paperColour)"
  shows "is_rejection
           (setPageNodePosPaperColour isValidColour tr dispatch pagePos pageNode paperColour) tr"
  using assms by (simp add: setPageNodePosPaperColour_def is_rejection_rejected)

lemma map_of_set_attribute:
  assumes "map_of ns pos = Some n"
  shows "map_of (map (\<lambda>(p, m). if p = pos
                                 then (p, PMNode (type_name m) (AList.update key v (attrs m))
                                            (content m))
                                 else (p, m)) ns) pos
           = Some (PMNode (type_name n) (AList.update key v (attrs n)) (content n))"
  using assms by (induction ns) (auto split: if_splits)

lemma nodeAt_setNodeAttribute:
  assumes "nodeAt d pos = Inr (Some n)"
  shows "nodeAt (setNodeAttribute d pos key v) pos
           = Inr (Some (PMNode (type_name n) (AList.update key v (attrs n)) (content n)))"
proof -
  from assms have range: "\<not> (pos < 0 \<or> content_size d < pos)"
    and found: "map_of (doc_nodes d) pos = Some n"
    by (auto simp add: nodeAt_def split: if_splits)
  from range show ?thesis
    by (simp add: nodeAt_def setNodeAttribute_def map_of_set_attribute [OF found])
qed

lemma map_of_update_same: "map_of (AList.update k v al) k = Some v"
  by (simp add: update_conv')

lemma set_twice_size:
  assumes "isValidPaperSize K paperSize" and "nodeAt (tr_doc tr) pagePos = Inr (Some pageNode)"
    and "isPageNode pageNode" and "getPageNodePaperSize pageNode \<noteq> Some (AStr paperSize)"
  shows "set_twice (\<lambda>t n. setPageNodePosPaperSize K t Dispatch pagePos n paperSize)
           tr pagePos pageNode"
proof -
  let ?tr' = "setPageNodeAttribute tr pagePos pageNode PAGE_NODE_PAPER_SIZE_ATTR (AStr paperSize)"
  let ?n' = "PMNode (type_name pageNode)
               (AList.update PAGE_NODE_PAPER_SIZE_ATTR (AStr paperSize) (attrs pageNode))
               (content pageNode)"
  have first: "setPageNodePosPaperSize K tr Dispatch pagePos pageNode paperSize
                 = \<lparr> returned = True, tr_after = ?tr', dispatched = [?tr'], logged = [] \<rparr>"
    using assms by (simp add: setPageNodePosPaperSize_def Let_def)
  have node: "nodeAt (tr_doc ?tr') pagePos = Inr (Some ?n')"
    using assms(2) by (simp add: setPageNodeAttribute_def nodeAt_setNodeAttribute)
  have "getPageNodePaperSize ?n' = Some (AStr paperSize)"
    by (simp add: getPageNodePaperSize_def map_of_update_same)
  then have "is_rejection (setPageNodePosPaperSize K ?tr' Dispatch pagePos ?n' paperSize) ?tr'"
    by (rule setPageNodePosPaperSize_already_set)
  with first node show ?thesis
    by (simp add: set_twice_def)
qed

lemma set_twice_colour:
  assumes "isValidColour paperColour" and "nodeAt (tr_doc tr) pagePos = Inr (Some pageNode)"
    and "isPageNode pageNode" and "getPageNodePaperColour pageNode \<noteq> Some (AStr paperColour)"
  shows "set_twice (\<lambda>t n. setPageNodePosPaperColour isValidColour t Dispatch pagePos n paperColour)
           tr pagePos pageNode"
proof -
  let ?tr' = "setPageNodeAttribute tr pagePos pageNode PAGE_NODE_PAPER_COLOUR_ATTR
                (AStr paperColour)"
  let ?n' = "PMNode (type_name pageNode)
               (AList.update PAGE_NODE_PAPER_COLOUR_ATTR (AStr paperColour) (attrs pageNode))
               (content pageNode)"
  have first: "setPageNodePosPaperColour isValidColour tr Dispatch pagePos pageNode paperColour
                 = \<lparr> returned = True, tr_after = ?tr', dispatched = [?tr'], logged = [] \<rparr>"
    using assms by (simp add: setPageNodePosPaperColour_def Let_def)
  have node: "nodeAt (tr_doc ?tr') pagePos = Inr (Some ?n')"
    using assms(2) by (simp add: setPageNodeAttribute_def nodeAt_setNodeAttribute)
  have "getPageNodePaperColour ?n' = Some (AStr paperColour)"
    by (simp add: getPageNodePaperColour_def map_of_update_same)
  then have "is_rejection
               (setPageNodePosPaperColour isValidColour ?tr' Dispatch pagePos ?n' paperColour) ?tr'"
    by (rule setPageNodePosPaperColour_already_set)
  with first node show ?thesis
    by (simp add: set_twice_def)
qed

text \<open>
  Claim C3. When the attribute of the node handed to \<open>setPageNodePosPaperSize\<close> or
  \<open>setPageNodePosPaperColour\<close> already has the requested value, the call returns
  \<open>false\<close>, leaves the transaction as it was and dispatches nothing. Hence, of two
  calls in succession with one valid value on a page node whose value differs, the
  first returns \<open>true\<close> and dispatches the changed transaction, and the second, given
  the node now at the position, returns \<open>false\<close> and dispatches nothing.
\<close>

theorem setters_reject_an_already_set_value:
  "(getPageNodePaperSize pageNode = Some (AStr paperSize) \<longrightarrow>
      is_rejection (setPageNodePosPaperSize K tr dispatch pagePos pageNode paperSize) tr)
   \<and> (getPageNodePaperColour pageNode = Some (AStr paperColour) \<longrightarrow>
      is_rejection
        (setPageNodePosPaperColour isValidColour tr dispatch pagePos pageNode paperColour) tr)
   \<and> (isValidPaperSize K paperSize \<and> nodeAt (tr_doc tr) pagePos = Inr (Some pageNode)
       \<and> isPageNode pageNode \<and> getPageNodePaperSize pageNode \<noteq> Some (AStr paperSize) \<longrightarrow>
      set_twice (\<lambda>t n. setPageNodePosPaperSize K t Dispatch pagePos n paperSize)
        tr pagePos pageNode)
   \<and> (isValidColour paperColour \<and> nodeAt (tr_doc tr) pagePos = Inr (Some pageNode)
       \<and> isPageNode pageNode \<and> getPageNodePaperColour pageNode \<noteq> Some (AStr paperColour) \<longrightarrow>
      set_twice (\<lambda>t n. setPageNodePosPaperColour isValidColour t Dispatch pagePos n paperColour)
        tr pagePos pageNode)"
  by (simp add: setPageNodePosPaperSize_already_set setPageNodePosPaperColour_already_set
        set_twice_size set_twice_colour)

theorem setters_reject_an_already_set_value_witness:
  "getPageNodePaperSize example_page = Some (AStr ''A4'')
   \<and> is_rejection (setPageNodePosPaperSize example_constants example_tr Dispatch 0
                     example_page ''A4'') example_tr
   \<and> getPageNodePaperColour example_page = Some (AStr ''#fff'')
   \<and> is_rejection (setPageNodePosPaperColour example_isValidColour example_tr Dispatch 0
                     example_page ''#fff'') example_tr
   \<and> isValidPaperSize example_constants ''Letter''
   \<and> nodeAt (tr_doc example_tr) 0 = Inr (Some example_page)
   \<and> isPageNode example_page
   \<and> getPageNodePaperSize example_page \<noteq> Some (AStr ''Letter'')
   \<and> set_twice (\<lambda>t n. setPageNodePosPaperSize example_constants t Dispatch 0 n ''Letter'')
        example_tr 0 example_page
   \<and> example_isValidColour ''#000''
   \<and> getPageNodePaperColour example_page \<noteq> Some (AStr ''#000'')
   \<and> set_twice (\<lambda>t n. setPageNodePosPaperColour example_isValidColour t Dispatch 0 n ''#000'')
        example_tr 0 example_page"
  using
    setters_reject_an_already_set_value
      [where pageNode = example_page and paperSize = "''A4''" and paperColour = "''#fff''"
         and K = example_constants and tr = example_tr and dispatch = Dispatch
         and pagePos = 0 and isValidColour = example_isValidColour]
    setters_reject_an_already_set_value
      [where pageNode = example_page and paperSize = "''Letter''" and paperColour = "''#000''"
         and K = example_constants and tr = example_tr and dispatch = Dispatch
         and pagePos = 0 and isValidColour = example_isValidColour]
  by (simp add: example_facts)

text \<open>
  Claim C4. The claim has every failure path return \<open>false\<close> with the transaction
  unchanged, no dispatch and no exception. The code does so where its own tests fail
  and where the lookup returns \<open>null\<close> (position 2 below), but not in two cases. At a
  position outside the document (99 and -1 below) no node exists, and
  \<open>setPagePaperSize\<close> throws the \<open>RangeError\<close> of the lookup instead of returning
  \<open>false\<close>. And the paper size \<open>constructor\<close>, which is not a key of the table, passes
  the \<open>in\<close> test of \<open>isValidPaperSize\<close>: both paper size setters write it to the
  transaction, dispatch and return \<open>true\<close>.
\<close>

theorem setters_throw_or_accept_on_failure_inputs:
  "nodeAt (tr_doc example_tr) 2 = Inr None
   \<and> setPagePaperSize example_constants example_tr Dispatch 2 ''Letter''
       = Inr (rejected example_tr [Error_NoNodeAtPos 2])
   \<and> setPagePaperSize example_constants example_tr Dispatch 99 ''Letter'' = Inl RangeError
   \<and> setPagePaperSize example_constants example_tr Dispatch (-1) ''Letter'' = Inl RangeError
   \<and> ''constructor'' \<notin> set (map fst (paperDimensions example_constants))
   \<and> returned (setPageNodePosPaperSize example_constants example_tr Dispatch 0 example_page
                 ''constructor'')
   \<and> dispatched (setPageNodePosPaperSize example_constants example_tr Dispatch 0 example_page
                   ''constructor'')
       = [setPageNodeAttribute example_tr 0 example_page PAGE_NODE_PAPER_SIZE_ATTR
            (AStr ''constructor'')]
   \<and> tr_steps (tr_after (setPageNodePosPaperSize example_constants example_tr Dispatch 0
                            example_page ''constructor''))
       = [AttrStep 0 ''paperSize'' (AStr ''constructor'')]
   \<and> setPagePaperSize example_constants example_tr Dispatch 0 ''constructor''
       = Inr (setPageNodePosPaperSize example_constants example_tr Dispatch 0 example_page
                ''constructor'')"
proof -
  have valid: "isValidPaperSize example_constants ''constructor''"
    by (simp add: isValidPaperSize_def js_in_def Object_prototype_keys_def)
  have key: "''constructor'' \<notin> set (map fst (paperDimensions example_constants))"
    by (simp add: example_constants_def)
  have set: "setPageNodePosPaperSize example_constants example_tr Dispatch 0 example_page
               ''constructor''
             = \<lparr> returned = True,
                 tr_after = setPageNodeAttribute example_tr 0 example_page
                              PAGE_NODE_PAPER_SIZE_ATTR (AStr ''constructor''),
                 dispatched = [setPageNodeAttribute example_tr 0 example_page
                                 PAGE_NODE_PAPER_SIZE_ATTR (AStr ''constructor'')],
                 logged = [] \<rparr>"
    using valid by (simp add: setPageNodePosPaperSize_def Let_def example_facts)
  have steps: "tr_steps (setPageNodeAttribute example_tr 0 example_page
                 PAGE_NODE_PAPER_SIZE_ATTR (AStr ''constructor''))
               = [AttrStep 0 ''paperSize'' (AStr ''constructor'')]"
    by (simp add: setPageNodeAttribute_def example_tr_def PAGE_NODE_PAPER_SIZE_ATTR_def)
  show ?thesis
    using key
    by (simp add: set steps setPagePaperSize_def example_facts)
qed

section \<open>The page node\<close>

subsection \<open>Parsing the margins\<close>

text \<open>What holds of the hook: a missing or empty attribute gives the default margins.\<close>

lemma pageMargins_parseHTML_missing:
  assumes "getAttribute element PAGE_NODE_PAGE_MARGINS_ATTR = None"
  shows "pageMargins_parseHTML JSON_parse K element = Inr (AMargins (DEFAULT_MARGIN_CONFIG K))"
  using assms by (simp add: pageMargins_parseHTML_def)

lemma pageMargins_parseHTML_empty:
  assumes "getAttribute element PAGE_NODE_PAGE_MARGINS_ATTR = Some []"
  shows "pageMargins_parseHTML JSON_parse K element = Inr (AMargins (DEFAULT_MARGIN_CONFIG K))"
  using assms by (simp add: pageMargins_parseHTML_def)

text \<open>
  Parsing what \<open>renderHTML\<close> wrote gives the margins back wherever the runtime's
  \<open>JSON.parse\<close> inverts its \<open>JSON.stringify\<close> on them and the text is not empty.
\<close>

lemma pageMargins_round_trip:
  assumes "map_of attributes' PAGE_NODE_PAGE_MARGINS_ATTR = Some x"
    and "JSON_stringify (Some x) \<noteq> []"
    and "JSON_parse (JSON_stringify (Some x)) = Inr x"
  shows "pageMargins_parseHTML JSON_parse K
           (Element t (pageMargins_renderHTML JSON_stringify attributes') p) = Inr x"
  using assms
  by (simp add: pageMargins_parseHTML_def pageMargins_renderHTML_def getAttribute_def)

text \<open>
  Claim C2. The hook hands every non-empty attribute text to \<open>JSON.parse\<close> and its
  outcome is the outcome of \<open>JSON.parse\<close>, a throw included: for the text \<open>garbled\<close>,
  on which \<open>JSON.parse\<close> throws a \<open>SyntaxError\<close>, the hook throws instead of returning
  the default margins.
\<close>

theorem pageMargins_parseHTML_is_JSON_parse_on_text:
  "pageMargins_parseHTML JSON_parse K
     (Element ''div'' [(''data-page'', ''true''), (''pageMargins'', ''garbled'')] None)
     = JSON_parse ''garbled''
   \<and> pageMargins_parseHTML JSON_parse K (Element t ((''pageMargins'', c # cs) # rest) p)
     = JSON_parse (c # cs)"
  by (simp add: pageMargins_parseHTML_def getAttribute_def PAGE_NODE_PAGE_MARGINS_ATTR_def)

subsection \<open>The parse rule\<close>

text \<open>
  Claim C9, as amended. The page rule accepts an element if and only if the element is
  a \<open>div\<close> that carries \<open>data-page\<close> and whose parent element, if it has one, does not
  carry \<open>data-page\<close>. So a \<open>div\<close> with the attribute is accepted exactly when its
  parent lacks the attribute, and in nested page HTML the inner element is rejected.
\<close>

theorem page_rule_accepts_outer_div_only:
  "(page_rule_accepts el \<longleftrightarrow>
      tag el = baseElement \<and> hasAttribute el dataPageAttribute
      \<and> (case parentElement el of
           None \<Rightarrow> True
         | Some parent \<Rightarrow> \<not> hasAttribute parent dataPageAttribute))
   \<and> page_rule_accepts (Element ''div'' [(''data-page'', v)] p)
       = (case p of None \<Rightarrow> True | Some parent \<Rightarrow> \<not> hasAttribute parent dataPageAttribute)
   \<and> \<not> page_rule_accepts
          (Element ''div'' [(''data-page'', w)] (Some (Element ''div'' [(''data-page'', v)] p)))"
  by (auto simp add: page_rule_accepts_def parseHTML_def rule_accepts_def page_getAttrs_def
        matches_def hasAttribute_def baseElement_def dataPageAttribute_def split: option.splits)

text \<open>
  Claim C9 as stated fails at a \<open>section\<close> element that carries \<open>data-page\<close> and has
  no parent: the selector of the rule asks for a \<open>div\<close>.
\<close>

theorem page_rule_rejects_non_div_counterexample:
  "hasAttribute (Element ''section'' [(''data-page'', ''true'')] None) dataPageAttribute
   \<and> parentElement (Element ''section'' [(''data-page'', ''true'')] None) = None
   \<and> \<not> page_rule_accepts (Element ''section'' [(''data-page'', ''true'')] None)"
  by (simp add: page_rule_accepts_def parseHTML_def rule_accepts_def page_getAttrs_def
        matches_def hasAttribute_def baseElement_def dataPageAttribute_def)

subsection \<open>The node view\<close>

text \<open>
  Claim C10. Two nodes whose attributes agree on every name but \<open>pageGap\<close> get the
  same node view, and the top margin of the view is \<open>mm\<close> of the \<open>pageGap\<close> option
  of the extension, although \<open>pageGap\<close> is among the attributes the node declares.
\<close>

theorem node_view_ignores_the_pageGap_attribute:
  assumes "\<forall>k. k \<noteq> PAGE_NODE_PAGE_GAP_ATTR \<longrightarrow> map_of (attrs n1) k = map_of (attrs n2) k"
  shows "addNodeView V K options n1 = addNodeView V K options n2
       \<and> style_marginTop (the (dom_style (view_dom (addNodeView V K options n1))))
           = mm V (pageGap options)
       \<and> map_of (addAttributes K) PAGE_NODE_PAGE_GAP_ATTR = Some (ANum (DEFAULT_PAGE_GAP K))"
proof -
  have "map_of (attrs n1) PAGE_NODE_PAPER_SIZE_ATTR = map_of (attrs n2) PAGE_NODE_PAPER_SIZE_ATTR"
       "map_of (attrs n1) PAGE_NODE_PAPER_COLOUR_ATTR = map_of (attrs n2) PAGE_NODE_PAPER_COLOUR_ATTR"
       "map_of (attrs n1) PAGE_NODE_PAPER_ORIENTATION_ATTR
          = map_of (attrs n2) PAGE_NODE_PAPER_ORIENTATION_ATTR"
       "map_of (attrs n1) PAGE_NODE_PAGE_MARGINS_ATTR = map_of (attrs n2) PAGE_NODE_PAGE_MARGINS_ATTR"
    using assms
    by (simp_all add: PAGE_NODE_PAGE_GAP_ATTR_def PAGE_NODE_PAPER_SIZE_ATTR_def
          PAGE_NODE_PAPER_COLOUR_ATTR_def PAGE_NODE_PAPER_ORIENTATION_ATTR_def
          PAGE_NODE_PAGE_MARGINS_ATTR_def)
  then have "addNodeView V K options n1 = addNodeView V K options n2"
    by (simp add: addNodeView_def getPageNodePaperSize_def getPageNodePaperColour_def
          getPageNodePaperOrientation_def getPageNodePaperMargins_def Let_def)
  moreover have "style_marginTop (the (dom_style (view_dom (addNodeView V K options n1))))
                   = mm V (pageGap options)"
    by (simp add: addNodeView_def Let_def)
  moreover have "map_of (addAttributes K) PAGE_NODE_PAGE_GAP_ATTR
                   = Some (ANum (DEFAULT_PAGE_GAP K))"
    by (simp add: addAttributes_def PAGE_NODE_PAGE_GAP_ATTR_def PAGE_NODE_PAPER_SIZE_ATTR_def
          PAGE_NODE_PAPER_COLOUR_ATTR_def PAGE_NODE_PAPER_ORIENTATION_ATTR_def
          PAGE_NODE_PAGE_MARGINS_ATTR_def)
  ultimately show ?thesis by blast
qed

theorem node_view_ignores_the_pageGap_attribute_witness:
  "addNodeView example_view_helpers example_constants example_options
        (PMNode ''page'' [(''paperSize'', AStr ''A4''), (''pageGap'', ANum 5)] [])
     = addNodeView example_view_helpers example_constants example_options
        (PMNode ''page'' [(''pageGap'', ANum 80), (''paperSize'', AStr ''A4'')] [])
   \<and> style_marginTop (the (dom_style (view_dom
        (addNodeView example_view_helpers example_constants example_options
           (PMNode ''page'' [(''paperSize'', AStr ''A4''), (''pageGap'', ANum 5)] [])))))
     = ''20mm''
   \<and> map_of (attrs (PMNode ''page'' [(''paperSize'', AStr ''A4''), (''pageGap'', ANum 5)] []))
         PAGE_NODE_PAGE_GAP_ATTR = Some (ANum 5)
   \<and> map_of (attrs (PMNode ''page'' [(''pageGap'', ANum 80), (''paperSize'', AStr ''A4'')] []))
         PAGE_NODE_PAGE_GAP_ATTR = Some (ANum 80)"
proof -
  have h: "\<forall>k. k \<noteq> PAGE_NODE_PAGE_GAP_ATTR \<longrightarrow>
        map_of (attrs (PMNode ''page'' [(''paperSize'', AStr ''A4''), (''pageGap'', ANum 5)] [])) k
      = map_of (attrs (PMNode ''page'' [(''pageGap'', ANum 80), (''paperSize'', AStr ''A4'')] [])) k"
    by (simp add: PAGE_NODE_PAGE_GAP_ATTR_def)
  note inst = node_view_ignores_the_pageGap_attribute
                [OF h, of example_view_helpers example_constants example_options]
  have gap: "mm example_view_helpers (pageGap example_options) = ''20mm''"
    by (simp add: example_view_helpers_def example_options_def)
  from inst have same: "addNodeView example_view_helpers example_constants example_options
        (PMNode ''page'' [(''paperSize'', AStr ''A4''), (''pageGap'', ANum 5)] [])
     = addNodeView example_view_helpers example_constants example_options
        (PMNode ''page'' [(''pageGap'', ANum 80), (''paperSize'', AStr ''A4'')] [])"
    by blast
  from inst have "style_marginTop (the (dom_style (view_dom
        (addNodeView example_view_helpers example_constants example_options
           (PMNode ''page'' [(''paperSize'', AStr ''A4''), (''pageGap'', ANum 5)] [])))))
     = mm example_view_helpers (pageGap example_options)"
    by blast
  with gap have top: "style_marginTop (the (dom_style (view_dom
        (addNodeView example_view_helpers example_constants example_options
           (PMNode ''page'' [(''paperSize'', AStr ''A4''), (''pageGap'', ANum 5)] [])))))
     = ''20mm''"
    by simp
  from same top show ?thesis by (simp add: PAGE_NODE_PAGE_GAP_ATTR_def)
qed

subsection \<open>The clipboard serializer\<close>

text \<open>
  What the override returns: the target followed, for each page node of the fragment,
  by the DOM of the page's children; a node of the fragment that is no page node adds
  nothing.
\<close>

lemma foldl_paginationSerializeStep:
  "foldl (paginationSerializeStep serializeNode) target fragment =
     target @ concat (map (\<lambda>node. if isPageNode node then map serializeNode (content node)
                                   else []) fragment)"
  by (induction fragment arbitrary: target)
     (simp_all add: paginationSerializeStep_def serializeFragment_def)

lemma paginationSerializeFragment_eq:
  "paginationSerializeFragment serializeNode fragment target =
     (case target of None \<Rightarrow> [] | Some given \<Rightarrow> given)
     @ concat (map (\<lambda>node. if isPageNode node then map serializeNode (content node)
                           else []) fragment)"
  by (simp add: paginationSerializeFragment_def foldl_paginationSerializeStep)

text \<open>
  Claim C1. For the fragment of one page node with the children \<open>A\<close> and \<open>B\<close> followed
  by one paragraph, the override returns the DOM of \<open>A\<close> and of \<open>B\<close> only: the
  paragraph, which the claim expects third in the output, is missing.
\<close>

theorem paginationSerializeFragment_drops_non_page_nodes:
  "paginationSerializeFragment serializeNode
     [PMNode ''page'' attrs0 [A, B], PMNode ''paragraph'' attrs1 children] None
   = [serializeNode A, serializeNode B]
   \<and> paginationSerializeFragment (\<lambda>node. node)
       [PMNode ''page'' [] [PMNode ''heading'' [] [], PMNode ''paragraph'' [] []],
        PMNode ''blockquote'' [] []] None
     = [PMNode ''heading'' [] [], PMNode ''paragraph'' [] []]"
  by (simp add: paginationSerializeFragment_eq isPageNode_def PAGE_NODE_NAME_def)

end
